theory Spec2Isabelle
  imports Main
begin

section \<open>The segmentation training template\<close>

text \<open>
  The file \<^verbatim>\<open>templates/template-vision-segmentation/main.py\<close> is a template: the
  generator evaluates the directives \<^verbatim>\<open>#::: if (it.flag) { :::#\<close> over the options
  object \<^verbatim>\<open>it\<close> and emits the enclosed Python lines, and the rendered script then runs
  in every process of the distributed job. The model below follows both steps: the
  functions take the generator's options \<open>it\<close> (which lines exist) and the run-time
  inputs (rank, parsed configuration, the objects returned by the collaborating
  modules), and return the calls the script makes, in program order.
\<close>

subsection \<open>Generator options\<close>

text \<open>
  The directives are JavaScript expressions. A bare \<^verbatim>\<open>it.flag\<close> is tested for
  truthiness: \<^verbatim>\<open>undefined\<close>, \<^verbatim>\<open>false\<close>, \<^verbatim>\<open>0\<close> and the empty string are falsy.
\<close>

datatype jsval = JUndefined | JBool bool | JNum int | JStr string

fun truthy :: "jsval \<Rightarrow> bool" where
  "truthy JUndefined = False"
| "truthy (JBool b) = b"
| "truthy (JNum n) = (n \<noteq> 0)"
| "truthy (JStr s) = (s \<noteq> [])"

text \<open>
  The options the directives of this file read. \<open>it_nnodes\<close> is only ever compared
  with \<^verbatim>\<open>> 1\<close> and is kept as a number; \<open>it_dist\<close> is only compared with
  \<^verbatim>\<open>=== 'spawn'\<close>.
\<close>

record template_options =
  it_save_training :: jsval
  it_save_evaluation :: jsval
  it_patience :: jsval
  it_terminate_on_nan :: jsval
  it_timer :: jsval
  it_limit_sec :: jsval
  it_logger :: jsval
  it_dist :: string
  it_nproc_per_node :: jsval
  it_nnodes :: int
  it_master_addr :: jsval
  it_master_port :: jsval

text \<open>
  The condition of the directive at lines 84, 161 and 196:
  \<^verbatim>\<open>it.save_training || it.save_evaluation || it.patience || it.terminate_on_nan || it.timer || it.limit_sec\<close>.
\<close>

definition handlers_enabled :: "template_options \<Rightarrow> bool" where
  "handlers_enabled it =
     (truthy (it_save_training it) \<or> truthy (it_save_evaluation it) \<or> truthy (it_patience it)
      \<or> truthy (it_terminate_on_nan it) \<or> truthy (it_timer it) \<or> truthy (it_limit_sec it))"

subsection \<open>Run-time values\<close>

datatype pyval = PNone | PInt int | PStr string

text \<open>A \<^verbatim>\<open>pathlib.Path\<close> as its components; \<^verbatim>\<open>p / name\<close> appends one.\<close>

type_synonym path = "string list"

definition path_join :: "path \<Rightarrow> string \<Rightarrow> path" where
  "path_join p name = p @ [name]"

text \<open>
  The parsed command-line options this file reads. The float-valued learning rate
  \<^verbatim>\<open>config.lr\<close> is handed to the scheduler unchanged and is left out.
\<close>

record config =
  seed :: int
  output_dir :: path
  data_path :: string
  num_classes :: int
  max_epochs :: int
  log_every_iters :: int
  train_epoch_length :: "int option"
  eval_epoch_length :: "int option"
  backend :: pyval
  nproc_per_node :: pyval
  nnodes :: pyval
  node_rank :: pyval
  master_addr :: pyval
  master_port :: pyval

text \<open>
  The object \<^verbatim>\<open>setup_exp_logging\<close> returns: what line 187 asks of it
  (\<^verbatim>\<open>isinstance(exp_logger, WandBLogger)\<close>) and, for any other object, its truth value
  (line 191).
\<close>

datatype exp_logger = WandBLogger | OtherLogger bool

fun is_WandBLogger :: "exp_logger \<Rightarrow> bool" where
  "is_WandBLogger WandBLogger = True"
| "is_WandBLogger (OtherLogger _) = False"

fun logger_truth :: "exp_logger \<Rightarrow> bool" where
  "logger_truth WandBLogger = True"
| "logger_truth (OtherLogger b) = b"

text \<open>
  What the script obtains from its collaborators (\<^verbatim>\<open>utils\<close>, \<^verbatim>\<open>data\<close>,
  \<^verbatim>\<open>trainers\<close>, the engine library) and only passes on or inspects: they are inputs of
  the model. \<open>env_ckpt_train\<close> and \<open>env_ckpt_eval\<close> are the \<^verbatim>\<open>last_checkpoint\<close>
  of the two checkpoint handlers, \<open>None\<close> when \<^verbatim>\<open>setup_handlers\<close> returned \<^verbatim>\<open>None\<close>
  for the handler; \<open>env_timer\<close> tells whether it returned a timer.
\<close>

record env =
  env_setup_output_dir :: "config \<Rightarrow> int \<Rightarrow> path"
  env_len_train :: nat
  env_len_eval :: nat
  env_yaml_dump :: "config \<Rightarrow> string"
  env_exp_logger :: exp_logger
  env_ckpt_train :: "string option"
  env_ckpt_eval :: "string option"
  env_timer :: bool
  env_world_size :: int
  env_distributed_sampler :: bool

subsection \<open>Calls and handlers\<close>

datatype engine = Trainer | Evaluator

datatype event_name = STARTED | EPOCH_STARTED | ITERATION_COMPLETED | EPOCH_COMPLETED | COMPLETED

text \<open>
  An event as the script writes it: bare, \<^verbatim>\<open>(every=n)\<close>, or
  \<^verbatim>\<open>(event_filter=custom_event_filter)\<close>.
\<close>

datatype event_filter = Unfiltered | Every int | Custom_event_filter

text \<open>The five handlers this file registers, named as in the source.\<close>

datatype handler =
    Set_epoch
  | Log_metrics_train
  | On_epoch_completed
  | On_started
  | Predictions_gt_images

datatype saved = Model | Optimizer | The_trainer | Lr_scheduler

datatype log_arg = Config_vars config | Timer_value | Last_checkpoint string

datatype call =
    Manual_seed int
  | Setup_output_dir int
  | Setup_data
  | Device
  | Auto_model int
  | Auto_optim
  | Cross_entropy_loss
  | LambdaLR int
  | Confusion_matrix int
  | IoU
  | MIoU
  | Setup_trainer
  | Setup_evaluator
  | Setup_logging
  | Logger_info string log_arg
  | Write_text path string
  | Register engine event_name event_filter handler
  | Setup_handlers "(string \<times> saved) list option" "(string \<times> saved) list option"
  | Setup_exp_logging
  | Exp_logger_attach engine event_name event_filter handler
  | Trainer_run int "int option"
  | Exp_logger_finish
  | Exp_logger_close
  | Sampler_set_epoch int
  | Log_metrics engine string
  | Timer_reset
  | Evaluator_run "int option"
  | Log_images

subsection \<open>The image event filter (lines 118 to 122)\<close>

text \<open>
  \<^verbatim>\<open>custom_event_filter(_, val_iteration)\<close> closes over \<^verbatim>\<open>dataloader_eval\<close>,
  \<^verbatim>\<open>trainer.state.epoch\<close> and \<^verbatim>\<open>config.max_epochs\<close>; they are arguments here.
  \<^verbatim>\<open>//\<close> on a length is floor division of a natural number, \<^verbatim>\<open>%\<close> by 3 is \<open>mod\<close>,
  and \<^verbatim>\<open>|=\<close> on two booleans is disjunction.
\<close>

definition custom_event_filter :: "nat \<Rightarrow> int \<Rightarrow> config \<Rightarrow> int \<Rightarrow> bool" where
  "custom_event_filter len_dataloader_eval epoch cfg val_iteration =
     (let c1 = (val_iteration = int (len_dataloader_eval div 2));
          c2 = (epoch mod 3 = 0);
          c2 = (c2 \<or> epoch = max_epochs cfg)
      in c1 \<and> c2)"

subsection \<open>The body of \<^verbatim>\<open>run\<close>, block by block\<close>

text \<open>
  Each definition is one commented block of \<^verbatim>\<open>run(local_rank, config)\<close>, with the
  calls it makes in program order. \<open>rank\<close> is the value of
  \<^verbatim>\<open>idist.get_rank()\<close> in the process.
\<close>

text \<open>Lines 22 to 24: \<^verbatim>\<open>manual_seed(config.seed + rank)\<close>.\<close>

definition make_seed :: "int \<Rightarrow> config \<Rightarrow> call list" where
  "make_seed rank cfg = [Manual_seed (seed cfg + rank)]"

text \<open>Line 27: \<^verbatim>\<open>config.output_dir = setup_output_dir(config, rank)\<close> updates the
  configuration object in place.\<close>

definition create_output_folder :: "env \<Rightarrow> int \<Rightarrow> config \<Rightarrow> config" where
  "create_output_folder env rank cfg = cfg\<lparr>output_dir := env_setup_output_dir env cfg rank\<rparr>"

text \<open>Line 30.\<close>

definition create_dataloaders :: "call list" where
  "create_dataloaders = [Setup_data]"

text \<open>Lines 34 to 58; the scheduler receives \<^verbatim>\<open>n=config.max_epochs * le\<close>.\<close>

definition create_model :: "env \<Rightarrow> config \<Rightarrow> call list" where
  "create_model env cfg =
     [Device, Auto_model (num_classes cfg), Auto_optim, Cross_entropy_loss,
      LambdaLR (max_epochs cfg * int (env_len_train env))]"

text \<open>Lines 61 and 62.\<close>

definition setup_metrics :: "config \<Rightarrow> call list" where
  "setup_metrics cfg = [Confusion_matrix (num_classes cfg), IoU, MIoU]"

text \<open>Lines 65 and 66.\<close>

definition setup_engines :: "call list" where
  "setup_engines = [Setup_trainer, Setup_evaluator]"

text \<open>Lines 70 to 72: the Python logger, the configuration dump to the log, and
  \<^verbatim>\<open>(config.output_dir / "config-lock.yaml").write_text(yaml.dump(config))\<close>.\<close>

definition setup_logger :: "env \<Rightarrow> config \<Rightarrow> call list" where
  "setup_logger env cfg =
     [Setup_logging,
      Logger_info (''Configuration: '' @ [CHR 0x0A] @ ''%s'') (Config_vars cfg),
      Write_text (path_join (output_dir cfg) ''config-lock.yaml'') (env_yaml_dump env cfg)]"

text \<open>Lines 76 and 77: \<^verbatim>\<open>@trainer.on(Events.EPOCH_STARTED)\<close>.\<close>

definition register_set_epoch :: "call list" where
  "register_set_epoch = [Register Trainer EPOCH_STARTED Unfiltered Set_epoch]"

text \<open>Lines 86 to 95 and 97 to 101: one of the two assignments is emitted for each
  variable.\<close>

definition to_save_train :: "template_options \<Rightarrow> (string \<times> saved) list option" where
  "to_save_train it =
     (if truthy (it_save_training it)
      then Some [(''model'', Model), (''optimizer'', Optimizer), (''trainer'', The_trainer),
                 (''lr_scheduler'', Lr_scheduler)]
      else None)"

definition to_save_eval :: "template_options \<Rightarrow> (string \<times> saved) list option" where
  "to_save_eval it = (if truthy (it_save_evaluation it) then Some [(''model'', Model)] else None)"

text \<open>Lines 84 to 106.\<close>

definition setup_ignite_handlers :: "template_options \<Rightarrow> call list" where
  "setup_ignite_handlers it =
     (if handlers_enabled it then [Setup_handlers (to_save_train it) (to_save_eval it)] else [])"

text \<open>Lines 109 to 142: emitted under \<^verbatim>\<open>it.logger\<close>, executed under
  \<^verbatim>\<open>if rank == 0\<close>.\<close>

definition experiment_tracking :: "template_options \<Rightarrow> int \<Rightarrow> call list" where
  "experiment_tracking it rank =
     (if truthy (it_logger it)
      then (if rank = 0
            then [Setup_exp_logging,
                  Exp_logger_attach Evaluator ITERATION_COMPLETED Custom_event_filter
                    Predictions_gt_images]
            else [])
      else [])"

text \<open>Lines 147 to 173: the three registrations on the trainer.\<close>

definition register_metrics_handlers :: "config \<Rightarrow> call list" where
  "register_metrics_handlers cfg =
     [Register Trainer ITERATION_COMPLETED (Every (log_every_iters cfg)) Log_metrics_train,
      Register Trainer EPOCH_COMPLETED (Every 1) On_epoch_completed,
      Register Trainer STARTED Unfiltered On_started]"

text \<open>Lines 176 to 180.\<close>

definition run_training :: "config \<Rightarrow> call list" where
  "run_training cfg = [Trainer_run (max_epochs cfg) (train_epoch_length cfg)]"

text \<open>Lines 183 to 193.\<close>

definition close_logger :: "template_options \<Rightarrow> env \<Rightarrow> int \<Rightarrow> call list" where
  "close_logger it env rank =
     (if truthy (it_logger it)
      then (if rank = 0
            then (if is_WandBLogger (env_exp_logger env) then [Exp_logger_finish]
                  else if logger_truth (env_exp_logger env) then [Exp_logger_close]
                  else [])
            else [])
      else [])"

text \<open>Lines 196 to 208.\<close>

definition show_last_checkpoint :: "template_options \<Rightarrow> env \<Rightarrow> call list" where
  "show_last_checkpoint it env =
     (if handlers_enabled it
      then (case env_ckpt_train env of
              Some name \<Rightarrow> [Logger_info ''Last training checkpoint name - %s'' (Last_checkpoint name)]
            | None \<Rightarrow> [])
           @ (case env_ckpt_eval env of
                Some name \<Rightarrow> [Logger_info ''Last evaluation checkpoint name - %s'' (Last_checkpoint name)]
              | None \<Rightarrow> [])
      else [])"

text \<open>The whole function, lines 20 to 208.\<close>

definition run :: "template_options \<Rightarrow> env \<Rightarrow> int \<Rightarrow> config \<Rightarrow> call list" where
  "run it env rank config =
     (let config' = create_output_folder env rank config
      in make_seed rank config
         @ [Setup_output_dir rank]
         @ create_dataloaders
         @ create_model env config'
         @ setup_metrics config'
         @ setup_engines
         @ setup_logger env config'
         @ register_set_epoch
         @ setup_ignite_handlers it
         @ experiment_tracking it rank
         @ register_metrics_handlers config'
         @ run_training config'
         @ close_logger it env rank
         @ show_last_checkpoint it env)"

subsection \<open>The handlers' bodies\<close>

text \<open>Lines 77 to 81, with \<open>epoch\<close> the value of \<^verbatim>\<open>trainer.state.epoch\<close>.\<close>

definition set_epoch :: "env \<Rightarrow> int \<Rightarrow> call list" where
  "set_epoch env epoch =
     (if env_world_size env > 1 \<and> env_distributed_sampler env
      then [Sampler_set_epoch (epoch - 1)] else [])"

text \<open>Lines 159 to 168; the timer lines are emitted under the handlers directive.\<close>

definition on_epoch_completed :: "template_options \<Rightarrow> env \<Rightarrow> config \<Rightarrow> call list" where
  "on_epoch_completed it env cfg =
     (if handlers_enabled it
      then (if env_timer env
            then [Logger_info ''Time per batch: %.4f seconds'' Timer_value, Timer_reset]
            else [])
      else [])
     @ [Evaluator_run (eval_epoch_length cfg), Log_metrics Evaluator ''eval'']"

text \<open>Lines 172 and 173.\<close>

definition on_started :: "config \<Rightarrow> call list" where
  "on_started cfg = [Evaluator_run (eval_epoch_length cfg)]"

text \<open>What a handler does when the engine calls it. \<^verbatim>\<open>log_metrics\<close> is registered
  with \<^verbatim>\<open>tag="train"\<close> and receives the trainer.\<close>

fun handler_calls :: "template_options \<Rightarrow> env \<Rightarrow> config \<Rightarrow> int \<Rightarrow> handler \<Rightarrow> call list" where
  "handler_calls it env cfg epoch Set_epoch = set_epoch env epoch"
| "handler_calls it env cfg epoch Log_metrics_train = [Log_metrics Trainer ''train'']"
| "handler_calls it env cfg epoch On_epoch_completed = on_epoch_completed it env cfg"
| "handler_calls it env cfg epoch On_started = on_started cfg"
| "handler_calls it env cfg epoch Predictions_gt_images = [Log_images]"

subsection \<open>Event dispatch\<close>

text \<open>
  The engine library calls the handlers. The script relies on this much of its contract:
  when an event of an engine fires, the handlers registered on that engine for that event
  are called in registration order; a bare event always calls its handlers,
  \<^verbatim>\<open>(every=n)\<close> calls them when the event's counter is a multiple of \<open>n\<close> (the library
  rejects \<open>n < 1\<close> at registration), and \<^verbatim>\<open>(event_filter=f)\<close> calls them when
  \<open>f\<close> returns true on the counter. \<open>counter\<close> is the engine's iteration or epoch
  count at the event, \<open>epoch\<close> is \<^verbatim>\<open>trainer.state.epoch\<close>.
\<close>

definition registration :: "call \<Rightarrow> (engine \<times> event_name \<times> event_filter \<times> handler) option" where
  "registration c =
     (case c of
        Register e n f h \<Rightarrow> Some (e, n, f, h)
      | Exp_logger_attach e n f h \<Rightarrow> Some (e, n, f, h)
      | _ \<Rightarrow> None)"

definition registered :: "call list \<Rightarrow> (engine \<times> event_name \<times> event_filter \<times> handler) list" where
  "registered script = List.map_filter registration script"

fun filter_passes :: "env \<Rightarrow> config \<Rightarrow> int \<Rightarrow> event_filter \<Rightarrow> int \<Rightarrow> bool" where
  "filter_passes env cfg epoch Unfiltered counter = True"
| "filter_passes env cfg epoch (Every n) counter = (counter mod n = 0)"
| "filter_passes env cfg epoch Custom_event_filter counter =
     custom_event_filter (env_len_eval env) epoch cfg counter"

definition fire ::
  "template_options \<Rightarrow> env \<Rightarrow> int \<Rightarrow> config \<Rightarrow> engine \<Rightarrow> event_name \<Rightarrow> int \<Rightarrow> int \<Rightarrow> call list" where
  "fire it env rank config eng ev counter epoch =
     (let config' = create_output_folder env rank config
      in concat (map (\<lambda>(e, n, f, h). handler_calls it env config' epoch h)
           (filter (\<lambda>(e, n, f, h). e = eng \<and> n = ev \<and> filter_passes env config' epoch f counter)
              (registered (run it env rank config)))))"

subsection \<open>The calls made while the trainer runs\<close>

text \<open>
  \<^verbatim>\<open>trainer.run\<close> fires the trainer's events one after the other. For a sequence of
  events, each with its counter and the trainer's epoch at that moment, the calls of this
  file's handlers during the run are the concatenation of what each event fires. The
  sequence itself is the engine's business and is left arbitrary.
\<close>

definition trainer_run_calls ::
  "template_options \<Rightarrow> env \<Rightarrow> int \<Rightarrow> config \<Rightarrow> (event_name \<times> int \<times> int) list \<Rightarrow> call list" where
  "trainer_run_calls it env rank config events =
     concat (map (\<lambda>(ev, counter, epoch). fire it env rank config Trainer ev counter epoch) events)"

subsection \<open>The entry point \<^verbatim>\<open>main\<close> (lines 212 to 232)\<close>

datatype py_error = NameError string

datatype main_call =
    Download_datasets string
  | Parallel pyval "(string \<times> pyval) list"
  | Parallel_run

text \<open>
  Lines 216 to 226: the variable \<^verbatim>\<open>kwargs\<close> after the spawn branch's assignments.
  The inner directive has no final \<^verbatim>\<open>else\<close>: when \<^verbatim>\<open>it.nproc_per_node\<close> is
  falsy no assignment is emitted and the name is unbound (\<open>None\<close>).
\<close>

definition main_kwargs :: "template_options \<Rightarrow> config \<Rightarrow> (string \<times> pyval) list option" where
  "main_kwargs it cfg =
     (if truthy (it_nproc_per_node it) \<and> it_nnodes it > 1 \<and> truthy (it_master_addr it)
         \<and> truthy (it_master_port it)
      then Some [(''nproc_per_node'', nproc_per_node cfg), (''nnodes'', nnodes cfg),
                 (''node_rank'', node_rank cfg), (''master_addr'', master_addr cfg),
                 (''master_port'', master_port cfg)]
      else if truthy (it_nproc_per_node it) then Some [(''nproc_per_node'', nproc_per_node cfg)]
      else None)"

text \<open>
  \<open>cfg\<close> is what \<^verbatim>\<open>setup_parser().parse_args()\<close> returned. The result is the calls
  made and the exception raised, if any: reading the unbound \<^verbatim>\<open>kwargs\<close> at line 227
  raises \<^verbatim>\<open>NameError\<close> after the datasets were downloaded.
\<close>

definition main :: "template_options \<Rightarrow> config \<Rightarrow> main_call list \<times> py_error option" where
  "main it cfg =
     (if it_dist it = ''spawn''
      then (case main_kwargs it cfg of
              Some kwargs \<Rightarrow>
                ([Download_datasets (data_path cfg), Parallel (backend cfg) kwargs, Parallel_run],
                 None)
            | None \<Rightarrow> ([Download_datasets (data_path cfg)], Some (NameError ''kwargs'')))
      else ([Download_datasets (data_path cfg), Parallel (backend cfg) [], Parallel_run], None))"

subsection \<open>Observations on a sequence of calls\<close>

text \<open>The positional backend and the keyword arguments of every \<^verbatim>\<open>idist.Parallel\<close> call.\<close>

definition launcher_arguments :: "main_call list \<Rightarrow> (pyval \<times> (string \<times> pyval) list) list" where
  "launcher_arguments calls =
     List.map_filter (\<lambda>c. case c of Parallel b kwargs \<Rightarrow> Some (b, kwargs) | _ \<Rightarrow> None) calls"

definition seeds_used :: "call list \<Rightarrow> int list" where
  "seeds_used calls = List.map_filter (\<lambda>c. case c of Manual_seed s \<Rightarrow> Some s | _ \<Rightarrow> None) calls"

definition written_files :: "call list \<Rightarrow> (path \<times> string) list" where
  "written_files calls =
     List.map_filter (\<lambda>c. case c of Write_text p s \<Rightarrow> Some (p, s) | _ \<Rightarrow> None) calls"

definition is_shutdown :: "call \<Rightarrow> bool" where
  "is_shutdown c = (case c of Exp_logger_finish \<Rightarrow> True | Exp_logger_close \<Rightarrow> True | _ \<Rightarrow> False)"

text \<open>Every call that creates, feeds or shuts down the experiment logger.\<close>

definition is_exp_tracker_call :: "call \<Rightarrow> bool" where
  "is_exp_tracker_call c =
     (case c of
        Setup_exp_logging \<Rightarrow> True
      | Exp_logger_attach _ _ _ _ \<Rightarrow> True
      | Exp_logger_finish \<Rightarrow> True
      | Exp_logger_close \<Rightarrow> True
      | Log_images \<Rightarrow> True
      | _ \<Rightarrow> False)"

definition is_setup_handlers :: "call \<Rightarrow> bool" where
  "is_setup_handlers c = (case c of Setup_handlers _ _ \<Rightarrow> True | _ \<Rightarrow> False)"

definition is_log_metrics :: "call \<Rightarrow> bool" where
  "is_log_metrics c = (case c of Log_metrics _ _ \<Rightarrow> True | _ \<Rightarrow> False)"

definition is_evaluator_run :: "call \<Rightarrow> bool" where
  "is_evaluator_run c = (case c of Evaluator_run _ \<Rightarrow> True | _ \<Rightarrow> False)"

text \<open>
  The phases the specification names, and the phase each call belongs to. Seeding, the
  output folder and the Python logger set-up (with the configuration dump) belong to none
  of them.
\<close>

datatype phase =
    Dataset_setup
  | Model_construction
  | Metric_setup
  | Engine_construction
  | Handler_registration
  | Run_loop
  | Teardown

definition phase_of :: "call \<Rightarrow> phase option" where
  "phase_of c =
     (case c of
        Setup_data \<Rightarrow> Some Dataset_setup
      | Device \<Rightarrow> Some Model_construction
      | Auto_model _ \<Rightarrow> Some Model_construction
      | Auto_optim \<Rightarrow> Some Model_construction
      | Cross_entropy_loss \<Rightarrow> Some Model_construction
      | LambdaLR _ \<Rightarrow> Some Model_construction
      | Confusion_matrix _ \<Rightarrow> Some Metric_setup
      | IoU \<Rightarrow> Some Metric_setup
      | MIoU \<Rightarrow> Some Metric_setup
      | Setup_trainer \<Rightarrow> Some Engine_construction
      | Setup_evaluator \<Rightarrow> Some Engine_construction
      | Register _ _ _ _ \<Rightarrow> Some Handler_registration
      | Setup_handlers _ _ \<Rightarrow> Some Handler_registration
      | Setup_exp_logging \<Rightarrow> Some Handler_registration
      | Exp_logger_attach _ _ _ _ \<Rightarrow> Some Handler_registration
      | Trainer_run _ _ \<Rightarrow> Some Run_loop
      | Exp_logger_finish \<Rightarrow> Some Teardown
      | Exp_logger_close \<Rightarrow> Some Teardown
      | Logger_info _ (Last_checkpoint _) \<Rightarrow> Some Teardown
      | _ \<Rightarrow> None)"


subsection \<open>Concrete inputs\<close>

definition example_options :: template_options where
  "example_options =
     \<lparr>it_save_training = JBool True, it_save_evaluation = JBool False, it_patience = JNum 0,
      it_terminate_on_nan = JBool False, it_timer = JBool False, it_limit_sec = JUndefined,
      it_logger = JStr ''wandb'', it_dist = ''spawn'', it_nproc_per_node = JNum 2,
      it_nnodes = 2, it_master_addr = JStr ''127.0.0.1'', it_master_port = JNum 8080\<rparr>"

definition example_config :: config where
  "example_config =
     \<lparr>seed = 666, output_dir = [''logs''], data_path = ''data'', num_classes = 21,
      max_epochs = 5, log_every_iters = 10, train_epoch_length = None,
      eval_epoch_length = Some 4, backend = PStr ''nccl'', nproc_per_node = PInt 2,
      nnodes = PInt 2, node_rank = PInt 0, master_addr = PStr ''127.0.0.1'',
      master_port = PInt 8080\<rparr>"

definition example_env :: env where
  "example_env =
     \<lparr>env_setup_output_dir = (\<lambda>cfg rank. output_dir cfg @ [''run'']),
      env_len_train = 100, env_len_eval = 4,
      env_yaml_dump = (\<lambda>cfg. ''seed: 666''),
      env_exp_logger = WandBLogger, env_ckpt_train = Some ''checkpoint_5.pt'',
      env_ckpt_eval = None, env_timer = False, env_world_size = 2,
      env_distributed_sampler = True\<rparr>"

section \<open>Properties\<close>

subsection \<open>Auxiliary facts\<close>

lemmas run_blocks =
  run_def Let_def make_seed_def create_output_folder_def create_dataloaders_def create_model_def
  setup_metrics_def setup_engines_def setup_logger_def register_set_epoch_def
  setup_ignite_handlers_def experiment_tracking_def register_metrics_handlers_def
  run_training_def close_logger_def show_last_checkpoint_def

lemmas examples = example_options_def example_config_def example_env_def

text \<open>The registrations the script makes, in order.\<close>

lemma registered_run:
  "registered (run it env rank cfg) =
     [(Trainer, EPOCH_STARTED, Unfiltered, Set_epoch)]
     @ (if truthy (it_logger it) \<and> rank = 0
        then [(Evaluator, ITERATION_COMPLETED, Custom_event_filter, Predictions_gt_images)] else [])
     @ [(Trainer, ITERATION_COMPLETED, Every (log_every_iters cfg), Log_metrics_train),
        (Trainer, EPOCH_COMPLETED, Every 1, On_epoch_completed),
        (Trainer, STARTED, Unfiltered, On_started)]"
  by (simp add: run_blocks registered_def List.map_filter_def registration_def split: option.splits)

text \<open>What an event of the trainer fires.\<close>

lemma fire_trainer:
  "fire it env rank cfg Trainer ev counter epoch =
     (if ev = EPOCH_STARTED then set_epoch env epoch else [])
     @ (if ev = ITERATION_COMPLETED \<and> counter mod log_every_iters cfg = 0
        then [Log_metrics Trainer ''train''] else [])
     @ (if ev = EPOCH_COMPLETED
        then on_epoch_completed it env (create_output_folder env rank cfg) else [])
     @ (if ev = STARTED then on_started cfg else [])"
  by (simp add: fire_def registered_run Let_def create_output_folder_def on_started_def)

text \<open>What an event of the evaluator fires.\<close>

lemma fire_evaluator:
  "fire it env rank cfg Evaluator ev counter epoch =
     (if truthy (it_logger it) \<and> rank = 0 \<and> ev = ITERATION_COMPLETED
         \<and> custom_event_filter (env_len_eval env) epoch cfg counter
      then [Log_images] else [])"
  by (simp add: fire_def registered_run Let_def create_output_folder_def custom_event_filter_def)

lemma phase_of_simps [simp]:
  "phase_of Setup_data = Some Dataset_setup"
  "phase_of Device = Some Model_construction"
  "phase_of (Auto_model n) = Some Model_construction"
  "phase_of Auto_optim = Some Model_construction"
  "phase_of Cross_entropy_loss = Some Model_construction"
  "phase_of (LambdaLR k) = Some Model_construction"
  "phase_of (Confusion_matrix n) = Some Metric_setup"
  "phase_of IoU = Some Metric_setup"
  "phase_of MIoU = Some Metric_setup"
  "phase_of Setup_trainer = Some Engine_construction"
  "phase_of Setup_evaluator = Some Engine_construction"
  "phase_of (Register e ev f h) = Some Handler_registration"
  "phase_of (Setup_handlers a b) = Some Handler_registration"
  "phase_of Setup_exp_logging = Some Handler_registration"
  "phase_of (Exp_logger_attach e ev f h) = Some Handler_registration"
  "phase_of (Trainer_run m l) = Some Run_loop"
  "phase_of Exp_logger_finish = Some Teardown"
  "phase_of Exp_logger_close = Some Teardown"
  "phase_of (Logger_info s (Last_checkpoint name)) = Some Teardown"
  "phase_of (Logger_info s (Config_vars c)) = None"
  "phase_of (Manual_seed i) = None"
  "phase_of (Setup_output_dir i) = None"
  "phase_of Setup_logging = None"
  "phase_of (Write_text p t) = None"
  by (simp_all add: phase_of_def)

text \<open>The evaluator runs fired by one event of the trainer.\<close>

lemma evaluator_runs_of_event:
  "filter is_evaluator_run (fire it env rank cfg Trainer ev counter epoch) =
     (if ev = STARTED \<or> ev = EPOCH_COMPLETED then [Evaluator_run (eval_epoch_length cfg)] else [])"
  by (cases ev)
     (simp_all add: fire_trainer set_epoch_def on_started_def on_epoch_completed_def
        create_output_folder_def is_evaluator_run_def)

text \<open>The training-metric lines fired by one event of the trainer.\<close>

lemma train_metrics_of_event:
  "filter (\<lambda>c. c = Log_metrics Trainer ''train'') (fire it env rank cfg Trainer ev counter epoch) =
     (if ev = ITERATION_COMPLETED \<and> counter mod log_every_iters cfg = 0
      then [Log_metrics Trainer ''train''] else [])"
  by (cases ev)
     (simp_all add: fire_trainer set_epoch_def on_started_def on_epoch_completed_def
        create_output_folder_def)

subsection \<open>The image event filter\<close>

text \<open>
  C1. The validation-image event filter returns true exactly when the evaluation
  iteration equals \<^verbatim>\<open>len(dataloader_eval) // 2\<close> and the trainer's epoch is a multiple of
  3 or equals \<^verbatim>\<open>config.max_epochs\<close>, and false on every other pair. Accordingly the
  image handler, attached to the evaluator's completed iterations under this filter on
  rank 0 of a script generated with a logger, is called at exactly those iterations.
\<close>

theorem custom_event_filter_fires_iff:
  "custom_event_filter len_eval epoch cfg val_iteration =
     (val_iteration = int (len_eval div 2) \<and> (epoch mod 3 = 0 \<or> epoch = max_epochs cfg))
   \<and> fire it env rank cfg Evaluator ITERATION_COMPLETED val_iteration epoch =
     (if truthy (it_logger it) \<and> rank = 0 \<and> val_iteration = int (env_len_eval env div 2)
         \<and> (epoch mod 3 = 0 \<or> epoch = max_epochs cfg)
      then [Log_images] else [])"
  by (simp add: fire_evaluator custom_event_filter_def)

theorem custom_event_filter_fires_iff_witness:
  "custom_event_filter 4 3 example_config 2
   \<and> custom_event_filter 4 5 example_config 2
   \<and> \<not> custom_event_filter 4 4 example_config 2
   \<and> \<not> custom_event_filter 4 3 example_config 1
   \<and> fire example_options example_env 0 example_config Evaluator ITERATION_COMPLETED 2 3
       = [Log_images]"
  using custom_event_filter_fires_iff [of 4 3 example_config 2 example_options example_env 0]
    custom_event_filter_fires_iff [of 4 5 example_config 2 example_options example_env 0]
    custom_event_filter_fires_iff [of 4 4 example_config 2 example_options example_env 0]
    custom_event_filter_fires_iff [of 4 3 example_config 1 example_options example_env 0]
  by (simp add: examples)

subsection \<open>Shutting the experiment logger down\<close>

text \<open>
  C2. At teardown, in a script generated with a logger and on rank 0, a
  \<^verbatim>\<open>WandBLogger\<close> is shut down with \<^verbatim>\<open>finish()\<close> and every other truthy logger object
  with \<^verbatim>\<open>close()\<close>; in every other case neither is called. Nothing else in the file
  depends on which logger object it is: all other calls of \<^verbatim>\<open>run\<close>, and all calls of
  the handlers, are the same for any two logger objects.
\<close>

theorem shutdown_special_cases_wandb_only:
  "filter is_shutdown (run it env rank cfg) =
     (if truthy (it_logger it) \<and> rank = 0
      then (if is_WandBLogger (env_exp_logger env) then [Exp_logger_finish]
            else if logger_truth (env_exp_logger env) then [Exp_logger_close]
            else [])
      else [])
   \<and> filter (\<lambda>c. \<not> is_shutdown c) (run it (env\<lparr>env_exp_logger := l\<rparr>) rank cfg)
       = filter (\<lambda>c. \<not> is_shutdown c) (run it env rank cfg)
   \<and> fire it (env\<lparr>env_exp_logger := l\<rparr>) rank cfg eng ev counter epoch
       = fire it env rank cfg eng ev counter epoch"
proof (intro conjI)
  show "filter is_shutdown (run it env rank cfg) =
     (if truthy (it_logger it) \<and> rank = 0
      then (if is_WandBLogger (env_exp_logger env) then [Exp_logger_finish]
            else if logger_truth (env_exp_logger env) then [Exp_logger_close]
            else [])
      else [])"
    by (simp add: run_blocks is_shutdown_def split: option.splits)
  show "filter (\<lambda>c. \<not> is_shutdown c) (run it (env\<lparr>env_exp_logger := l\<rparr>) rank cfg)
       = filter (\<lambda>c. \<not> is_shutdown c) (run it env rank cfg)"
    by (simp add: run_blocks is_shutdown_def split: option.splits)
  show "fire it (env\<lparr>env_exp_logger := l\<rparr>) rank cfg eng ev counter epoch
       = fire it env rank cfg eng ev counter epoch"
    by (cases eng)
       (simp_all add: fire_trainer fire_evaluator set_epoch_def on_epoch_completed_def
          create_output_folder_def)
qed

theorem shutdown_special_cases_wandb_only_witness:
  "filter is_shutdown (run example_options example_env 0 example_config) = [Exp_logger_finish]
   \<and> filter is_shutdown
       (run example_options (example_env\<lparr>env_exp_logger := OtherLogger True\<rparr>) 0 example_config)
     = [Exp_logger_close]
   \<and> filter is_shutdown
       (run example_options (example_env\<lparr>env_exp_logger := OtherLogger False\<rparr>) 0 example_config)
     = []"
  using shutdown_special_cases_wandb_only [of example_options example_env 0 example_config]
    shutdown_special_cases_wandb_only
      [of example_options "example_env\<lparr>env_exp_logger := OtherLogger True\<rparr>" 0 example_config]
    shutdown_special_cases_wandb_only
      [of example_options "example_env\<lparr>env_exp_logger := OtherLogger False\<rparr>" 0 example_config]
  by (simp add: examples)

subsection \<open>The handler set-up block\<close>

text \<open>
  C3. The handler set-up block (the two \<^verbatim>\<open>to_save\<close> assignments and the
  \<^verbatim>\<open>setup_handlers\<close> call) is in the script if and only if at least one of the six
  options \<^verbatim>\<open>save_training\<close>, \<^verbatim>\<open>save_evaluation\<close>, \<^verbatim>\<open>patience\<close>,
  \<^verbatim>\<open>terminate_on_nan\<close>, \<^verbatim>\<open>timer\<close>, \<^verbatim>\<open>limit_sec\<close> is set. In it,
  \<^verbatim>\<open>to_save_train\<close> is the dictionary with the keys model, optimizer, trainer and
  lr_scheduler when \<^verbatim>\<open>save_training\<close> is set and \<^verbatim>\<open>None\<close> otherwise, and
  \<^verbatim>\<open>to_save_eval\<close> is \<^verbatim>\<open>{"model": model}\<close> when \<^verbatim>\<open>save_evaluation\<close> is set and
  \<^verbatim>\<open>None\<close> otherwise.
\<close>

theorem handler_setup_gated_by_flags:
  "filter is_setup_handlers (run it env rank cfg) =
     (if truthy (it_save_training it) \<or> truthy (it_save_evaluation it) \<or> truthy (it_patience it)
         \<or> truthy (it_terminate_on_nan it) \<or> truthy (it_timer it) \<or> truthy (it_limit_sec it)
      then [Setup_handlers
              (if truthy (it_save_training it)
               then Some [(''model'', Model), (''optimizer'', Optimizer), (''trainer'', The_trainer),
                          (''lr_scheduler'', Lr_scheduler)]
               else None)
              (if truthy (it_save_evaluation it) then Some [(''model'', Model)] else None)]
      else [])"
  by (simp add: run_blocks is_setup_handlers_def handlers_enabled_def to_save_train_def
      to_save_eval_def split: option.splits)

theorem handler_setup_gated_by_flags_witness:
  "filter is_setup_handlers (run example_options example_env 1 example_config) =
     [Setup_handlers
        (Some [(''model'', Model), (''optimizer'', Optimizer), (''trainer'', The_trainer),
               (''lr_scheduler'', Lr_scheduler)])
        None]
   \<and> filter is_setup_handlers
       (run (example_options\<lparr>it_save_training := JBool False\<rparr>) example_env 1 example_config)
     = []
   \<and> filter is_setup_handlers
       (run (example_options\<lparr>it_save_training := JBool False, it_patience := JNum 3,
               it_save_evaluation := JBool True\<rparr>) example_env 1 example_config)
     = [Setup_handlers None (Some [(''model'', Model)])]"
  using handler_setup_gated_by_flags [of example_options example_env 1 example_config]
    handler_setup_gated_by_flags
      [of "example_options\<lparr>it_save_training := JBool False\<rparr>" example_env 1 example_config]
    handler_setup_gated_by_flags
      [of "example_options\<lparr>it_save_training := JBool False, it_patience := JNum 3,
             it_save_evaluation := JBool True\<rparr>" example_env 1 example_config]
  by (simp add: examples)

subsection \<open>The arguments of the distributed launcher\<close>

text \<open>
  C4. \<^verbatim>\<open>main\<close> hands the launcher only the backend, process counts and rendezvous
  parameters. In spawn mode with \<^verbatim>\<open>nproc_per_node\<close>, more than one node, a master
  address and a master port, \<^verbatim>\<open>idist.Parallel\<close> receives exactly the five keyword
  arguments \<^verbatim>\<open>nproc_per_node\<close>, \<^verbatim>\<open>nnodes\<close>, \<^verbatim>\<open>node_rank\<close>, \<^verbatim>\<open>master_addr\<close>,
  \<^verbatim>\<open>master_port\<close> with the configuration's values; in spawn mode with
  \<^verbatim>\<open>nproc_per_node\<close> but not all of the multi-node options, exactly \<^verbatim>\<open>nproc_per_node\<close>;
  in a script generated for a pre-launched job, the backend and no keyword argument.
\<close>

theorem launcher_receives_only_process_and_rendezvous_kwargs:
  "(it_dist it = ''spawn'' \<and> truthy (it_nproc_per_node it) \<and> it_nnodes it > 1
      \<and> truthy (it_master_addr it) \<and> truthy (it_master_port it)
    \<longrightarrow> launcher_arguments (fst (main it cfg)) =
          [(backend cfg,
            [(''nproc_per_node'', nproc_per_node cfg), (''nnodes'', nnodes cfg),
             (''node_rank'', node_rank cfg), (''master_addr'', master_addr cfg),
             (''master_port'', master_port cfg)])]
        \<and> snd (main it cfg) = None)
   \<and> (it_dist it = ''spawn'' \<and> truthy (it_nproc_per_node it)
        \<and> \<not> (it_nnodes it > 1 \<and> truthy (it_master_addr it) \<and> truthy (it_master_port it))
      \<longrightarrow> launcher_arguments (fst (main it cfg)) =
            [(backend cfg, [(''nproc_per_node'', nproc_per_node cfg)])]
          \<and> snd (main it cfg) = None)
   \<and> (it_dist it \<noteq> ''spawn''
      \<longrightarrow> launcher_arguments (fst (main it cfg)) = [(backend cfg, [])]
          \<and> snd (main it cfg) = None)"
  by (simp add: main_def main_kwargs_def launcher_arguments_def List.map_filter_def)

theorem launcher_receives_only_process_and_rendezvous_kwargs_witness:
  "launcher_arguments (fst (main example_options example_config)) =
     [(PStr ''nccl'',
       [(''nproc_per_node'', PInt 2), (''nnodes'', PInt 2), (''node_rank'', PInt 0),
        (''master_addr'', PStr ''127.0.0.1''), (''master_port'', PInt 8080)])]
   \<and> launcher_arguments (fst (main (example_options\<lparr>it_nnodes := 1\<rparr>) example_config)) =
       [(PStr ''nccl'', [(''nproc_per_node'', PInt 2)])]
   \<and> launcher_arguments (fst (main (example_options\<lparr>it_dist := ''torchrun''\<rparr>) example_config)) =
       [(PStr ''nccl'', [])]"
  using launcher_receives_only_process_and_rendezvous_kwargs [of example_options example_config]
    launcher_receives_only_process_and_rendezvous_kwargs
      [of "example_options\<lparr>it_nnodes := 1\<rparr>" example_config]
    launcher_receives_only_process_and_rendezvous_kwargs
      [of "example_options\<lparr>it_dist := ''torchrun''\<rparr>" example_config]
  by (simp add: examples)

subsection \<open>The configuration lock file\<close>

text \<open>
  C5. Every run writes exactly one file: the YAML dump of the configuration object as it
  stands after \<^verbatim>\<open>config.output_dir\<close> was set, to \<^verbatim>\<open>config-lock.yaml\<close> inside that
  output directory. The write comes after the logger set-up and before
  \<^verbatim>\<open>trainer.run\<close>.
\<close>

theorem config_lock_written_once_between_logging_and_training:
  "written_files (run it env rank cfg) =
     [(env_setup_output_dir env cfg rank @ [''config-lock.yaml''],
       env_yaml_dump env (cfg\<lparr>output_dir := env_setup_output_dir env cfg rank\<rparr>))]
   \<and> (\<exists>pre mid post.
         run it env rank cfg =
           pre @ Setup_logging # mid
           @ Write_text (env_setup_output_dir env cfg rank @ [''config-lock.yaml''])
               (env_yaml_dump env (cfg\<lparr>output_dir := env_setup_output_dir env cfg rank\<rparr>))
             # post
         \<and> Trainer_run (max_epochs cfg) (train_epoch_length cfg) \<in> set post
         \<and> Trainer_run (max_epochs cfg) (train_epoch_length cfg) \<notin> set (pre @ mid))"
proof (intro conjI)
  let ?cfg = "create_output_folder env rank cfg"
  let ?lock = "Write_text (env_setup_output_dir env cfg rank @ [''config-lock.yaml''])
     (env_yaml_dump env (cfg\<lparr>output_dir := env_setup_output_dir env cfg rank\<rparr>))"
  let ?train = "Trainer_run (max_epochs cfg) (train_epoch_length cfg)"
  show "written_files (run it env rank cfg) =
     [(env_setup_output_dir env cfg rank @ [''config-lock.yaml''],
       env_yaml_dump env (cfg\<lparr>output_dir := env_setup_output_dir env cfg rank\<rparr>))]"
    by (simp add: run_blocks written_files_def List.map_filter_def path_join_def
        split: option.splits)
  let ?pre = "make_seed rank cfg @ [Setup_output_dir rank] @ create_dataloaders
     @ create_model env ?cfg @ setup_metrics ?cfg @ setup_engines"
  let ?mid = "[Logger_info (''Configuration: '' @ [CHR 0x0A] @ ''%s'') (Config_vars ?cfg)]"
  let ?post = "register_set_epoch @ setup_ignite_handlers it @ experiment_tracking it rank
     @ register_metrics_handlers ?cfg @ run_training ?cfg @ close_logger it env rank
     @ show_last_checkpoint it env"
  have "run it env rank cfg = ?pre @ Setup_logging # ?mid @ ?lock # ?post"
    by (simp add: run_def Let_def setup_logger_def path_join_def create_output_folder_def)
  moreover have "?train \<in> set ?post"
    by (simp add: run_training_def create_output_folder_def)
  moreover have "?train \<notin> set (?pre @ ?mid)"
    by (simp add: make_seed_def create_dataloaders_def create_model_def setup_metrics_def
        setup_engines_def)
  ultimately show "\<exists>pre mid post.
      run it env rank cfg = pre @ Setup_logging # mid @ ?lock # post
      \<and> ?train \<in> set post \<and> ?train \<notin> set (pre @ mid)"
    by blast
qed

theorem config_lock_written_once_between_logging_and_training_witness:
  "written_files (run example_options example_env 1 example_config) =
     [([''logs'', ''run'', ''config-lock.yaml''], ''seed: 666'')]"
  using config_lock_written_once_between_logging_and_training
    [of example_options example_env 1 example_config]
  by (simp add: examples)

subsection \<open>The order of the phases\<close>




subsection \<open>Scalar metric lines\<close>

text \<open>
  C7. With \<^verbatim>\<open>config.log_every_iters\<close> at least 1, \<^verbatim>\<open>log_metrics\<close> with the tag
  "train" is called once at a completed training iteration when the iteration count is
  a multiple of \<^verbatim>\<open>config.log_every_iters\<close> and not at all otherwise; over any sequence
  of trainer events it is called once for each such iteration and never else. At every
  completed training epoch the evaluation metrics are logged with the tag "eval" exactly
  once, right after the evaluator run. No other event and no line of \<^verbatim>\<open>run\<close> itself
  logs metrics.
\<close>

theorem scalar_metrics_logged_periodically:
  "1 \<le> log_every_iters cfg \<Longrightarrow>
     filter is_log_metrics (fire it env rank cfg Trainer ITERATION_COMPLETED iteration epoch) =
       (if iteration mod log_every_iters cfg = 0 then [Log_metrics Trainer ''train''] else [])
     \<and> filter (\<lambda>c. c = Log_metrics Trainer ''train'') (trainer_run_calls it env rank cfg events) =
         replicate
           (length (filter (\<lambda>(ev, counter, epoch).
                      ev = ITERATION_COMPLETED \<and> counter mod log_every_iters cfg = 0) events))
           (Log_metrics Trainer ''train'')
     \<and> (\<exists>timer_lines.
          fire it env rank cfg Trainer EPOCH_COMPLETED epoch epoch =
            timer_lines @ [Evaluator_run (eval_epoch_length cfg), Log_metrics Evaluator ''eval'']
          \<and> filter is_log_metrics timer_lines = [])
     \<and> filter is_log_metrics (fire it env rank cfg Trainer STARTED counter epoch) = []
     \<and> filter is_log_metrics (fire it env rank cfg Trainer EPOCH_STARTED counter epoch) = []
     \<and> filter is_log_metrics (fire it env rank cfg Trainer COMPLETED counter epoch) = []
     \<and> filter is_log_metrics (fire it env rank cfg Evaluator ev counter epoch) = []
     \<and> filter is_log_metrics (run it env rank cfg) = []"
proof (intro conjI)
  show "filter (\<lambda>c. c = Log_metrics Trainer ''train'') (trainer_run_calls it env rank cfg events) =
       replicate
         (length (filter (\<lambda>(ev, counter, epoch).
                    ev = ITERATION_COMPLETED \<and> counter mod log_every_iters cfg = 0) events))
         (Log_metrics Trainer ''train'')"
  proof (induction events)
    case Nil
    show ?case by (simp add: trainer_run_calls_def)
  next
    case (Cons e events)
    obtain ev counter epoch where e: "e = (ev, counter, epoch)"
      by (cases e) auto
    have "trainer_run_calls it env rank cfg (e # events) =
        fire it env rank cfg Trainer ev counter epoch @ trainer_run_calls it env rank cfg events"
      by (simp add: trainer_run_calls_def e)
    with Cons.IH show ?case
      by (simp add: train_metrics_of_event e)
  qed
  show "\<exists>timer_lines.
          fire it env rank cfg Trainer EPOCH_COMPLETED epoch epoch =
            timer_lines @ [Evaluator_run (eval_epoch_length cfg), Log_metrics Evaluator ''eval'']
          \<and> filter is_log_metrics timer_lines = []"
    by (simp add: fire_trainer on_epoch_completed_def create_output_folder_def is_log_metrics_def)
qed (simp_all add: fire_trainer fire_evaluator set_epoch_def on_started_def is_log_metrics_def
      run_blocks split: option.splits)

theorem scalar_metrics_logged_periodically_witness:
  "filter is_log_metrics
     (fire example_options example_env 0 example_config Trainer ITERATION_COMPLETED 30 1)
     = [Log_metrics Trainer ''train'']
   \<and> filter (\<lambda>c. c = Log_metrics Trainer ''train'')
       (trainer_run_calls example_options example_env 0 example_config
          [(ITERATION_COMPLETED, 9, 1), (ITERATION_COMPLETED, 10, 1), (EPOCH_COMPLETED, 1, 1),
           (ITERATION_COMPLETED, 20, 2)])
     = [Log_metrics Trainer ''train'', Log_metrics Trainer ''train'']"
proof -
  have h: "1 \<le> log_every_iters example_config"
    by (simp add: examples)
  show ?thesis
    using scalar_metrics_logged_periodically
      [OF h, of example_options example_env 0 30 1
         "[(ITERATION_COMPLETED, 9, 1), (ITERATION_COMPLETED, 10, 1), (EPOCH_COMPLETED, 1, 1),
           (ITERATION_COMPLETED, 20, 2)]"]
    by (simp add: examples numeral_2_eq_2)
qed

subsection \<open>The random seed\<close>

text \<open>
  C8. The first thing every process does is seed its random number generators with
  \<^verbatim>\<open>config.seed + rank\<close>, and it seeds only once. For one configuration the seeds of two
  processes are equal exactly when their ranks are, whatever the generator options and
  the collaborators' results: distinct ranks use distinct seeds, and a rerun of a rank
  with the same configuration uses the same seed.
\<close>

theorem seed_is_config_seed_plus_rank:
  "seeds_used (run it env rank cfg) = [seed cfg + rank]
   \<and> hd (run it env rank cfg) = Manual_seed (seed cfg + rank)
   \<and> (seeds_used (run it env r1 cfg) = seeds_used (run it' env' r2 cfg)) = (r1 = r2)"
  by (simp add: run_blocks seeds_used_def List.map_filter_def split: option.splits)

theorem seed_is_config_seed_plus_rank_witness:
  "seeds_used (run example_options example_env 3 example_config) = [669]
   \<and> seeds_used (run example_options example_env 0 example_config)
       \<noteq> seeds_used (run example_options example_env 3 example_config)"
proof -
  have a: "seeds_used (run example_options example_env 3 example_config)
      = [seed example_config + 3]"
    and b: "(seeds_used (run example_options example_env 0 example_config)
        = seeds_used (run example_options example_env 3 example_config)) = ((0::int) = 3)"
    using seed_is_config_seed_plus_rank
      [of example_options example_env 3 example_config 0 example_options example_env 3]
    by blast+
  have "seed example_config + 3 = 669"
    by (simp add: example_config_def)
  with a b show ?thesis
    by simp
qed

subsection \<open>Running the evaluator\<close>

text \<open>
  C9. The evaluator is run, with \<^verbatim>\<open>epoch_length=config.eval_epoch_length\<close>, exactly once
  when the trainer's \<^verbatim>\<open>STARTED\<close> event fires (before any training iteration) and
  exactly once when an epoch of the trainer completes, and by nothing else: no other
  event of the trainer, no event of the evaluator and no line of \<^verbatim>\<open>run\<close> itself runs it.
  Over any sequence of trainer events there is one evaluator run for every
  \<^verbatim>\<open>STARTED\<close> and every \<^verbatim>\<open>EPOCH_COMPLETED\<close> among them.
\<close>

theorem evaluator_run_at_started_and_each_epoch_end:
  "filter is_evaluator_run (fire it env rank cfg Trainer ev counter epoch) =
     (if ev = STARTED \<or> ev = EPOCH_COMPLETED then [Evaluator_run (eval_epoch_length cfg)] else [])
   \<and> filter is_evaluator_run (trainer_run_calls it env rank cfg events) =
       replicate
         (length (filter (\<lambda>(ev, counter, epoch). ev = STARTED \<or> ev = EPOCH_COMPLETED) events))
         (Evaluator_run (eval_epoch_length cfg))
   \<and> filter is_evaluator_run (fire it env rank cfg Evaluator ev counter epoch) = []
   \<and> filter is_evaluator_run (run it env rank cfg) = []"
proof (intro conjI)
  show "filter is_evaluator_run (fire it env rank cfg Trainer ev counter epoch) =
     (if ev = STARTED \<or> ev = EPOCH_COMPLETED then [Evaluator_run (eval_epoch_length cfg)] else [])"
    by (rule evaluator_runs_of_event)
  show "filter is_evaluator_run (trainer_run_calls it env rank cfg events) =
       replicate
         (length (filter (\<lambda>(ev, counter, epoch). ev = STARTED \<or> ev = EPOCH_COMPLETED) events))
         (Evaluator_run (eval_epoch_length cfg))"
  proof (induction events)
    case Nil
    show ?case by (simp add: trainer_run_calls_def)
  next
    case (Cons e events)
    obtain ev counter epoch where e: "e = (ev, counter, epoch)"
      by (cases e) auto
    have "trainer_run_calls it env rank cfg (e # events) =
        fire it env rank cfg Trainer ev counter epoch @ trainer_run_calls it env rank cfg events"
      by (simp add: trainer_run_calls_def e)
    with Cons.IH show ?case
      by (simp add: evaluator_runs_of_event e)
  qed
  show "filter is_evaluator_run (fire it env rank cfg Evaluator ev counter epoch) = []"
    by (simp add: fire_evaluator is_evaluator_run_def)
  show "filter is_evaluator_run (run it env rank cfg) = []"
    by (simp add: run_blocks is_evaluator_run_def split: option.splits)
qed

theorem evaluator_run_at_started_and_each_epoch_end_witness:
  "filter is_evaluator_run
     (trainer_run_calls example_options example_env 0 example_config
        [(STARTED, 0, 0), (EPOCH_STARTED, 1, 1), (ITERATION_COMPLETED, 1, 1),
         (ITERATION_COMPLETED, 2, 1), (EPOCH_COMPLETED, 1, 1), (EPOCH_STARTED, 2, 2),
         (ITERATION_COMPLETED, 3, 2), (ITERATION_COMPLETED, 4, 2), (EPOCH_COMPLETED, 2, 2),
         (COMPLETED, 2, 2)])
   = [Evaluator_run (Some 4), Evaluator_run (Some 4), Evaluator_run (Some 4)]"
  using evaluator_run_at_started_and_each_epoch_end
    [of example_options example_env 0 example_config STARTED 0 0
        "[(STARTED, 0, 0), (EPOCH_STARTED, 1, 1), (ITERATION_COMPLETED, 1, 1),
         (ITERATION_COMPLETED, 2, 1), (EPOCH_COMPLETED, 1, 1), (EPOCH_STARTED, 2, 2),
         (ITERATION_COMPLETED, 3, 2), (ITERATION_COMPLETED, 4, 2), (EPOCH_COMPLETED, 2, 2),
         (COMPLETED, 2, 2)]"]
  by (simp add: examples numeral_3_eq_3)

subsection \<open>The experiment tracker and the rank\<close>

text \<open>
  C10. In a process whose rank is not 0, \<^verbatim>\<open>run\<close> never creates the experiment logger,
  never attaches the image handler to it and never finishes or closes it, and no event
  of either engine calls the image handler.
\<close>

theorem exp_tracker_confined_to_rank_zero:
  "rank \<noteq> 0 \<Longrightarrow>
     filter is_exp_tracker_call (run it env rank cfg) = []
     \<and> filter is_exp_tracker_call (fire it env rank cfg eng ev counter epoch) = []"
  by (cases eng)
     (simp_all add: run_blocks fire_trainer fire_evaluator set_epoch_def on_epoch_completed_def
        on_started_def is_exp_tracker_call_def split: option.splits)

theorem exp_tracker_confined_to_rank_zero_witness:
  "filter is_exp_tracker_call (run example_options example_env 1 example_config) = []
   \<and> filter is_exp_tracker_call
       (fire example_options example_env 1 example_config Evaluator ITERATION_COMPLETED 2 3) = []"
proof -
  have h: "(1::int) \<noteq> 0"
    by simp
  show ?thesis
    using exp_tracker_confined_to_rank_zero
      [OF h, of example_options example_env example_config Evaluator ITERATION_COMPLETED 2 3]
    by simp
qed

end
